theory Spec2Isabelle
  imports Main "HOL-Library.AList"
begin

section \<open>Python values, dictionaries and exceptions\<close>

text \<open>
  The pipeline passes blog posts and publish results around as Python dictionaries with
  string keys. A dictionary is an association list: Python dictionaries keep insertion
  order, and storing under an existing key keeps the key's position, which is what
  \<open>AList.update\<close> does. The values that occur are strings, integers, booleans, lists of
  strings (tags) and \<open>None\<close>.
\<close>

datatype pyval = PNone | PBool bool | PInt int | PStr string | PList "string list"

type_synonym pydict = "(string \<times> pyval) list"

text \<open>An exception, with the message that \<open>str(e)\<close> gives.\<close>

datatype exn =
    KeyError string
  | AttributeError string
  | ValueError string
  | ExternalError string

fun str_exn :: "exn \<Rightarrow> string" where
  "str_exn (KeyError k) = [CHR 0x27] @ k @ [CHR 0x27]"
| "str_exn (AttributeError m) = m"
| "str_exn (ValueError m) = m"
| "str_exn (ExternalError m) = m"

text \<open>\<open>d[k]\<close> raises \<open>KeyError\<close> on a missing key; \<open>d.get(k, default)\<close> does not.\<close>

definition getitem :: "pydict \<Rightarrow> string \<Rightarrow> exn + pyval" where
  "getitem d k = (case map_of d k of None \<Rightarrow> Inl (KeyError k) | Some v \<Rightarrow> Inr v)"

definition get_default :: "pydict \<Rightarrow> string \<Rightarrow> pyval \<Rightarrow> pyval" where
  "get_default d k dflt = (case map_of d k of None \<Rightarrow> dflt | Some v \<Rightarrow> v)"

text \<open>Python truthiness of a value, as \<open>if v:\<close> tests it.\<close>

fun truthy :: "pyval \<Rightarrow> bool" where
  "truthy PNone = False"
| "truthy (PBool b) = b"
| "truthy (PInt i) = (i \<noteq> 0)"
| "truthy (PStr s) = (s \<noteq> [])"
| "truthy (PList xs) = (xs \<noteq> [])"

section \<open>String operations\<close>

text \<open>
  A \<open>char\<close> stands for the code point of the same number (U+0000 to U+00FF). On that
  range \<open>str.isspace\<close>, and with it \<open>str.strip()\<close> and \<open>str.split()\<close>, treat exactly the
  following code points as whitespace.
\<close>

definition isspace :: "char \<Rightarrow> bool" where
  "isspace c = (of_char c \<in> {9, 10, 11, 12, 13, 28, 29, 30, 31, 32, 133, 160 :: nat})"

definition strip :: "string \<Rightarrow> string" where
  "strip s = rev (dropWhile isspace (rev (dropWhile isspace s)))"

text \<open>\<open>s.split()\<close>: the maximal runs of non-whitespace; \<open>w\<close> is the word being read.\<close>

fun split_acc :: "string \<Rightarrow> string \<Rightarrow> string list" where
  "split_acc w [] = (if w = [] then [] else [w])"
| "split_acc w (c # cs) =
     (if isspace c then (if w = [] then split_acc [] cs else w # split_acc [] cs)
      else split_acc (w @ [c]) cs)"

definition split :: "string \<Rightarrow> string list" where
  "split s = split_acc [] s"

text \<open>\<open>s.split(sep)\<close> for a one-character separator: never empty, \<open>''.split(sep) == ['']\<close>.\<close>

fun split_on :: "char \<Rightarrow> string \<Rightarrow> string list" where
  "split_on sep [] = [] # []"
| "split_on sep (c # cs) =
     (if c = sep then [] # split_on sep cs
      else (case split_on sep cs of
              [] \<Rightarrow> [c] # []
            | w # ws \<Rightarrow> (c # w) # ws))"

fun join :: "string \<Rightarrow> string list \<Rightarrow> string" where
  "join sep [] = []"
| "join sep [x] = x"
| "join sep (x # y # ys) = x @ sep @ join sep (y # ys)"

definition startswith :: "string \<Rightarrow> string \<Rightarrow> bool" where
  "startswith s p = (take (length p) s = p)"

definition endswith :: "string \<Rightarrow> string \<Rightarrow> bool" where
  "endswith s p = (length p \<le> length s \<and> drop (length s - length p) s = p)"

text \<open>\<open>xs[:n]\<close>: a negative \<open>n\<close> counts from the end.\<close>

definition slice_to :: "int \<Rightarrow> 'a list \<Rightarrow> 'a list" where
  "slice_to n xs = (if 0 \<le> n then take (nat n) xs else take (nat (int (length xs) + n)) xs)"

text \<open>\<open>s.rfind(c)\<close>: the last index of \<open>c\<close>, or \<open>-1\<close>.\<close>

fun rfind_from :: "nat \<Rightarrow> int \<Rightarrow> string \<Rightarrow> char \<Rightarrow> int" where
  "rfind_from i found [] c = found"
| "rfind_from i found (x # xs) c = rfind_from (Suc i) (if x = c then int i else found) xs c"

definition rfind :: "string \<Rightarrow> char \<Rightarrow> int" where
  "rfind s c = rfind_from 0 (- 1) s c"

text \<open>\<open>str.lower()\<close> on the same range: A to Z, and U+00C0 to U+00DE except U+00D7.\<close>

definition lower_char :: "char \<Rightarrow> char" where
  "lower_char c =
     (let n = (of_char c :: nat)
      in if (65 \<le> n \<and> n \<le> 90) \<or> (192 \<le> n \<and> n \<le> 222 \<and> n \<noteq> 215)
         then char_of (n + 32) else c)"

definition lower :: "string \<Rightarrow> string" where
  "lower s = map lower_char s"

text \<open>\<open>str(n)\<close> for a natural number.\<close>

fun str_nat :: "nat \<Rightarrow> string" where
  "str_nat n =
     (if n < 10 then [char_of (48 + n)]
      else str_nat (n div 10) @ [char_of (48 + n mod 10)])"

declare str_nat.simps [simp del]

section \<open>The blog generator\<close>

text \<open>
  The settings the pipeline reads (\<open>config/settings.py\<close>), both taken from the process
  environment.
\<close>

record settings =
  DATABASE_TYPE :: string
  BLOG_MAX_LENGTH :: int

text \<open>
  \<open>BlogGenerator._ensure_heading_structure\<close>: every line is stripped, and a line of more
  than 10 and fewer than 100 characters that ends in a colon and does not start with
  \<open>#\<close>, \<open>-\<close> or \<open>*\<close> becomes a second-level heading.
\<close>

definition heading_line :: "string \<Rightarrow> string" where
  "heading_line l =
     (let line = strip l
      in if line \<noteq> [] \<and> length line > 10 \<and> length line < 100
            \<and> \<not> startswith line ''#'' \<and> \<not> startswith line ''-''
            \<and> \<not> startswith line ''*'' \<and> endswith line '':''
         then ''## '' @ line
         else line)"

definition ensure_heading_structure :: "string \<Rightarrow> string" where
  "ensure_heading_structure content = join [CHR 0x0A] (map heading_line (split_on (CHR 0x0A) content))"

text \<open>
  \<open>BlogGenerator._trim_content\<close>. The source compares \<open>end_pos > len(trimmed_text) * 0.8\<close>;
  for the integers involved that comparison is \<open>5 * end_pos > 4 * len(trimmed_text)\<close>.
\<close>

definition trim_content :: "string \<Rightarrow> int \<Rightarrow> string" where
  "trim_content content max_words =
     (let words = split content
      in if int (length words) \<le> max_words then content
         else
           let trimmed_words = slice_to max_words words;
               trimmed_text = join '' '' trimmed_words;
               last_period = rfind trimmed_text (CHR ''.'');
               last_exclamation = rfind trimmed_text (CHR ''!'');
               last_question = rfind trimmed_text (CHR ''?'');
               end_pos = max (max last_period last_exclamation) last_question
           in if 5 * end_pos > 4 * int (length trimmed_text)
              then slice_to (end_pos + 1) trimmed_text
              else trimmed_text @ ''...'')"

text \<open>
  \<open>BlogGenerator._generate_slug\<close>: lower case, drop everything but letters, digits,
  whitespace and hyphens, turn each run of hyphens and whitespace into one hyphen, strip
  hyphens at both ends.
\<close>

definition slug_keep :: "char \<Rightarrow> bool" where
  "slug_keep c =
     (let n = (of_char c :: nat)
      in (97 \<le> n \<and> n \<le> 122) \<or> (65 \<le> n \<and> n \<le> 90) \<or> (48 \<le> n \<and> n \<le> 57)
         \<or> isspace c \<or> c = CHR ''-'')"

definition slug_sep :: "char \<Rightarrow> bool" where
  "slug_sep c = (c = CHR ''-'' \<or> isspace c)"

fun collapse_seps :: "bool \<Rightarrow> string \<Rightarrow> string" where
  "collapse_seps in_run [] = []"
| "collapse_seps in_run (c # cs) =
     (if slug_sep c
      then (if in_run then collapse_seps True cs else CHR ''-'' # collapse_seps True cs)
      else c # collapse_seps False cs)"

definition generate_slug :: "string \<Rightarrow> string" where
  "generate_slug title =
     (let slug = collapse_seps False (filter slug_keep (lower title))
      in rev (dropWhile (\<lambda>c. c = CHR ''-'') (rev (dropWhile (\<lambda>c. c = CHR ''-'') slug))))"

text \<open>Calling a string method on a value that is not a string raises \<open>AttributeError\<close>.\<close>

fun as_str :: "pyval \<Rightarrow> exn + string" where
  "as_str (PStr s) = Inr s"
| "as_str v = Inl (AttributeError ''object has no attribute'')"

text \<open>
  \<open>BlogGenerator._process_blog_content\<close>. The word count is taken from the cleaned
  content and capped at \<open>BLOG_MAX_LENGTH\<close>; the result is the generator's dictionary with
  the keys \<open>content\<close>, \<open>word_count\<close>, \<open>slug\<close>, \<open>created_at\<close>, \<open>topic\<close>,
  \<open>is_auto_generated\<close> and \<open>status\<close> set or overwritten, in this order.
\<close>

definition process_blog_content :: "settings \<Rightarrow> string \<Rightarrow> pydict \<Rightarrow> string \<Rightarrow> exn + pydict" where
  "process_blog_content cfg now blog_data topic =
     (case getitem blog_data ''content'' of Inl e \<Rightarrow> Inl e | Inr cv \<Rightarrow>
      case as_str cv of Inl e \<Rightarrow> Inl e | Inr c \<Rightarrow>
        let content0 = ensure_heading_structure (strip c);
            n = int (length (split content0));
            content = (if n > BLOG_MAX_LENGTH cfg then trim_content content0 (BLOG_MAX_LENGTH cfg)
                       else content0);
            word_count = (if n > BLOG_MAX_LENGTH cfg then BLOG_MAX_LENGTH cfg else n)
        in case getitem blog_data ''title'' of Inl e \<Rightarrow> Inl e | Inr tv \<Rightarrow>
           case as_str tv of Inl e \<Rightarrow> Inl e | Inr title \<Rightarrow>
             Inr (AList.update ''status'' (PStr ''draft'')
                 (AList.update ''is_auto_generated'' (PBool True)
                 (AList.update ''topic'' (PStr topic)
                 (AList.update ''created_at'' (PStr now)
                 (AList.update ''slug'' (PStr (generate_slug title))
                 (AList.update ''word_count'' (PInt word_count)
                 (AList.update ''content'' (PStr content) blog_data))))))))"

text \<open>
  What a run of the pipeline gets from outside: the settings, the clock, the draw of
  \<open>random.choice\<close>, the language model behind \<open>BlogGenerator._generate_content\<close> and
  \<open>BlogGenerator._generate_series_plan\<close>, and the storage engine. The generator and the
  storage engine are asked several times in a series run, so their answers are indexed
  by the number of earlier requests in the run. \<open>generate_content n topic max_words\<close> is
  the dictionary \<open>_generate_content\<close> returns or the exception it raises;
  \<open>series_plan_response\<close> is the list of subtopics the model answered with, \<open>None\<close> when
  the request failed or the answer was not a list; \<open>insert_error n\<close> is the exception of
  the storage engine at the \<open>n\<close>-th insert, if it raises one.

  \<open>get_mysql_session\<close> and \<open>BlogPost\<close> say whether the module globals of these names in
  \<open>blog_scheduler.py\<close> are set. The module sets both to \<open>None\<close> when it is imported with
  a database type other than \<open>mysql\<close>; with \<open>mysql\<close> it imports them from
  \<open>config.database\<close>, which has a class \<open>BlogPost\<close> but no function \<open>get_mysql_session\<close>
  at module level.
\<close>

record env =
  cfg :: settings
  now :: string
  choice :: nat
  generate_content :: "nat \<Rightarrow> string \<Rightarrow> int \<Rightarrow> exn + pydict"
  series_plan_response :: "string list option"
  insert_error :: "nat \<Rightarrow> exn option"
  get_mysql_session :: bool
  BlogPost :: bool

text \<open>
  \<open>BlogGenerator.generate_blog\<close>. Its callers in the scheduler always pass the style
  \<open>informative\<close>, which is a known template, and the audience \<open>general\<close>.
\<close>

definition generate_blog :: "env \<Rightarrow> nat \<Rightarrow> string \<Rightarrow> int \<Rightarrow> exn + pydict" where
  "generate_blog e n topic max_words =
     (if strip topic = [] then Inl (ValueError ''Topic cannot be empty'')
      else (case generate_content e n topic max_words of
              Inl ex \<Rightarrow> Inl ex
            | Inr blog_data \<Rightarrow> process_blog_content (cfg e) (now e) blog_data topic))"

text \<open>\<open>BlogGenerator._generate_simple_series_plan\<close>: the first \<open>num_posts\<close> of ten titles.\<close>

definition generate_simple_series_plan :: "string \<Rightarrow> int \<Rightarrow> string list" where
  "generate_simple_series_plan main_topic num_posts =
     slice_to num_posts
       [''Introduction to '' @ main_topic,
        ''Getting Started with '' @ main_topic,
        ''Advanced '' @ main_topic @ '' Techniques'',
        main_topic @ '' Best Practices'',
        ''Future of '' @ main_topic,
        main_topic @ '' Case Studies'',
        ''Common '' @ main_topic @ '' Mistakes'',
        main_topic @ '' Tools and Resources'',
        main_topic @ '' vs Alternatives'',
        ''Mastering '' @ main_topic]"

text \<open>
  \<open>BlogGenerator._generate_series_plan\<close>: the model's list when it has \<open>num_posts\<close>
  entries, the simple plan otherwise. It never raises.
\<close>

definition generate_series_plan :: "env \<Rightarrow> string \<Rightarrow> int \<Rightarrow> string list" where
  "generate_series_plan e main_topic num_posts =
     (case series_plan_response e of
        None \<Rightarrow> generate_simple_series_plan main_topic num_posts
      | Some series_plan \<Rightarrow>
          if int (length series_plan) \<noteq> num_posts
          then generate_simple_series_plan main_topic num_posts
          else series_plan)"

text \<open>
  \<open>int(settings.BLOG_MAX_LENGTH * 0.8)\<close>, the word limit of a post of a series; \<open>int\<close>
  rounds towards zero.
\<close>

definition series_max_words :: "settings \<Rightarrow> int" where
  "series_max_words c =
     (if 0 \<le> BLOG_MAX_LENGTH c then (4 * BLOG_MAX_LENGTH c) div 5
      else - ((4 * (- BLOG_MAX_LENGTH c)) div 5))"

definition series_slug :: "string \<Rightarrow> nat \<Rightarrow> string" where
  "series_slug main_topic i =
     map (\<lambda>c. if c = CHR '' '' then CHR ''-'' else c) (lower main_topic) @ ''-part-'' @ str_nat i"

text \<open>
  The loop of \<open>BlogGenerator.generate_blog_series\<close> from post \<open>i\<close> on. The first post
  whose generation raises ends the loop, and the exception leaves the function: the
  posts generated so far are dropped with it.
\<close>

fun generate_series_posts :: "env \<Rightarrow> string \<Rightarrow> nat \<Rightarrow> string list \<Rightarrow> exn + pydict list" where
  "generate_series_posts e main_topic i [] = Inr []"
| "generate_series_posts e main_topic i (subtopic # rest) =
     (case generate_blog e (i - 1) subtopic (series_max_words (cfg e)) of
        Inl ex \<Rightarrow> Inl ex
      | Inr blog_post \<Rightarrow>
          (case generate_series_posts e main_topic (Suc i) rest of
             Inl ex \<Rightarrow> Inl ex
           | Inr posts \<Rightarrow>
               Inr (AList.update ''series_slug'' (PStr (series_slug main_topic i))
                   (AList.update ''series_topic'' (PStr main_topic)
                   (AList.update ''series_position'' (PInt (int i)) blog_post)) # posts)))"

definition generate_blog_series :: "env \<Rightarrow> string \<Rightarrow> int \<Rightarrow> exn + pydict list" where
  "generate_blog_series e main_topic num_posts =
     generate_series_posts e main_topic 1 (generate_series_plan e main_topic num_posts)"

section \<open>The publishers\<close>

text \<open>
  What \<open>publish_post\<close> of a publisher gives back: a dictionary, or \<open>None\<close> when the method
  ends without a \<open>return\<close>.
\<close>

datatype pyresult = ResNone | ResDict pydict

text \<open>
  A registered publisher object: the class the \<open>isinstance\<close> tests of the manager see
  (\<open>OtherClass\<close> is an object of none of the four classes), and its \<open>publish_post\<close>
  method. The method talks to a remote site, so its outcome (a returned value, or an
  exception) may differ from call to call; the first argument is the number of publish
  calls made before this one.
\<close>

datatype publisher_class =
    WordPressPublisher
  | MediumPublisher
  | NextJSAPIPublisher
  | CustomWebsitePublisher
  | OtherClass

record publisher =
  pclass :: publisher_class
  publish_post :: "nat \<Rightarrow> pyval \<Rightarrow> pyval \<Rightarrow> pyval \<Rightarrow> exn + pyresult"

text \<open>
  What the \<open>try\<close> block of \<open>NextJSAPIPublisher.publish_post\<close> meets: a response to the
  POST request, with its status code and its body (a JSON object), or an exception,
  one of the three kinds of the HTTP library that the method tells apart or any other.
\<close>

datatype http_reply =
    Reply int pydict
  | Timeout
  | ConnectionError
  | RequestException string
  | OtherException string

text \<open>\<open>a or b\<close> on the values of two \<open>dict.get\<close> calls.\<close>

definition py_or :: "pyval \<Rightarrow> pyval \<Rightarrow> pyval" where
  "py_or a b = (if truthy a then a else b)"

text \<open>
  \<open>NextJSAPIPublisher.publish_post\<close> as the manager calls it (status \<open>draft\<close>), from the
  reply on. Two texts come from outside: \<open>fmt v\<close> is \<open>v\<close> as an f-string prints it, and
  \<open>http_error code\<close> is the message of the exception that \<open>response.raise_for_status()\<close>
  raises for the status codes 400 to 599. For any other code \<open>raise_for_status\<close>
  returns, and the method ends without a \<open>return\<close> statement: the caller gets \<open>None\<close>.
  The clock readings \<open>published_at\<close> and \<open>api_response_time\<close> of the result are left out.
\<close>

definition failed_post :: "string \<Rightarrow> pyresult" where
  "failed_post msg = ResDict [(''success'', PBool False), (''error'', PStr msg), (''post_id'', PNone)]"

fun nextjs_publish_post :: "(pyval \<Rightarrow> string) \<Rightarrow> (int \<Rightarrow> string) \<Rightarrow> http_reply \<Rightarrow> exn + pyresult" where
  "nextjs_publish_post fmt http_error (Reply status_code body) =
     (if status_code = 201 then
        Inr (ResDict [(''success'', PBool True),
                      (''post_id'', py_or (get_default body ''id'' PNone) (get_default body ''_id'' PNone)),
                      (''url'', py_or (get_default body ''url'' PNone) (get_default body ''slug'' PNone)),
                      (''status'', PStr ''draft'')])
      else if status_code = 400 then
        Inr (failed_post (''Validation Error: '' @ fmt (get_default body ''message'' (PStr ''Bad Request''))))
      else if status_code = 401 then
        Inr (ResDict [(''success'', PBool False),
                      (''error'', PStr ''Session authentication failed - check admin session data''),
                      (''post_id'', PNone),
                      (''auth_type'', PStr ''session'')])
      else if status_code = 429 then
        Inr (failed_post ''Rate limit exceeded - please try again later'')
      else if 400 \<le> status_code \<and> status_code < 600 then
        Inr (failed_post (''API Request Error: '' @ http_error status_code))
      else Inr ResNone)"
| "nextjs_publish_post fmt http_error Timeout =
     Inr (failed_post ''Request timeout - API may be unavailable'')"
| "nextjs_publish_post fmt http_error ConnectionError =
     Inr (failed_post ''Failed to connect to API - check URL and network'')"
| "nextjs_publish_post fmt http_error (RequestException msg) =
     Inr (failed_post (''API Request Error: '' @ msg))"
| "nextjs_publish_post fmt http_error (OtherException msg) =
     Inr (failed_post (''Unexpected error: '' @ msg))"

section \<open>The publisher manager\<close>

text \<open>
  One round of the loop of \<open>PublisherManager.publish_to_all\<close>, for \<open>platform_name\<close>.
  The state of the loop is the result dictionary and the log of the platforms whose
  \<open>publish_post\<close> has been called, oldest first. A name that is not registered gets a
  failure entry and no call; a registered object of none of the four classes likewise;
  an exception of \<open>publish_post\<close> is caught and becomes a failure entry.
\<close>

definition call_publisher ::
  "publisher \<Rightarrow> string \<Rightarrow> pyval \<Rightarrow> pyval \<Rightarrow> pyval \<Rightarrow> (string \<times> pyresult) list \<times> string list
     \<Rightarrow> (string \<times> pyresult) list \<times> string list" where
  "call_publisher p platform_name title content tags st =
     (case st of (results, calls) \<Rightarrow>
        (case publish_post p (length calls) title content tags of
           Inr result \<Rightarrow> (AList.update platform_name result results, calls @ [platform_name])
         | Inl ex \<Rightarrow>
             (AList.update platform_name
                (ResDict [(''success'', PBool False), (''error'', PStr (str_exn ex))]) results,
              calls @ [platform_name])))"

definition publish_step ::
  "(string \<times> publisher) list \<Rightarrow> pyval \<Rightarrow> pyval \<Rightarrow> pyval \<Rightarrow> (string \<times> pyresult) list \<times> string list
     \<Rightarrow> string \<Rightarrow> (string \<times> pyresult) list \<times> string list" where
  "publish_step pubs title content tags st platform_name =
     (case map_of pubs platform_name of
        Some p \<Rightarrow>
          (case pclass p of
             WordPressPublisher \<Rightarrow> call_publisher p platform_name title content tags st
           | MediumPublisher \<Rightarrow> call_publisher p platform_name title content tags st
           | NextJSAPIPublisher \<Rightarrow> call_publisher p platform_name title content tags st
           | CustomWebsitePublisher \<Rightarrow> call_publisher p platform_name title content tags st
           | OtherClass \<Rightarrow>
               (AList.update platform_name
                  (ResDict [(''success'', PBool False), (''error'', PStr ''Unknown publisher type'')])
                  (fst st),
                snd st))
      | None \<Rightarrow>
          (AList.update platform_name
             (ResDict [(''success'', PBool False), (''error'', PStr ''Publisher not configured'')])
             (fst st),
           snd st))"

text \<open>\<open>platforms or list(self.publishers.keys())\<close>: \<open>None\<close> and the empty list select all.\<close>

definition target_platforms :: "(string \<times> publisher) list \<Rightarrow> string list option \<Rightarrow> string list" where
  "target_platforms pubs platforms =
     (case platforms of
        None \<Rightarrow> map fst pubs
      | Some ps \<Rightarrow> if ps = [] then map fst pubs else ps)"

text \<open>
  The \<open>for\<close> loop of \<open>publish_to_all\<close> over the target list, from an empty result
  dictionary.
\<close>

definition publish_loop ::
  "(string \<times> publisher) list \<Rightarrow> pyval \<Rightarrow> pyval \<Rightarrow> pyval \<Rightarrow> string list \<Rightarrow> string list
     \<Rightarrow> (string \<times> pyresult) list \<times> string list" where
  "publish_loop pubs title content tags targets calls =
     foldl (publish_step pubs title content tags) ([], calls) targets"

text \<open>
  \<open>PublisherManager.publish_to_all\<close>: the result dictionary, and the call log extended
  by the calls of this fan-out.
\<close>

definition publish_to_all ::
  "(string \<times> publisher) list \<Rightarrow> pyval \<Rightarrow> pyval \<Rightarrow> pyval \<Rightarrow> string list option \<Rightarrow> string list
     \<Rightarrow> (string \<times> pyresult) list \<times> string list" where
  "publish_to_all pubs title content tags platforms calls =
     publish_loop pubs title content tags (target_platforms pubs platforms) calls"

text \<open>
  The names the loop calls \<open>publish_post\<close> for: those registered with an object of one of
  the four classes.
\<close>

definition attempted :: "(string \<times> publisher) list \<Rightarrow> string \<Rightarrow> bool" where
  "attempted pubs platform_name =
     (case map_of pubs platform_name of
        None \<Rightarrow> False
      | Some p \<Rightarrow> pclass p \<noteq> OtherClass)"

section \<open>The scheduler\<close>

text \<open>The counters \<open>BlogScheduler.stats\<close>.\<close>

record statistics =
  total_generated :: int
  total_published :: int
  failed_generations :: int
  failed_publications :: int
  last_generation :: "string option"
  last_publication :: "string option"

text \<open>A job registered with the scheduling library by \<open>schedule_daily_blog_generation\<close>.\<close>

record job =
  job_time :: string
  job_topics :: "string list"
  job_max_words :: int
  job_publish_immediately :: bool
  job_platforms :: "string list option"

text \<open>
  The scheduler and what it acts on: its counters, the registry of its publisher
  manager, the stored blog posts (the \<open>blog_posts\<close> collection or table), the log of
  the platforms whose \<open>publish_post\<close> has been called, and the registered jobs.
\<close>

record scheduler =
  stats :: statistics
  publishers :: "(string \<times> publisher) list"
  blog_posts :: "pydict list"
  calls :: "string list"
  jobs :: "job list"

text \<open>
  The dictionary \<open>_publish_blog\<close> returns, which is also the \<open>publish_result\<close> of a
  report: \<open>{'success': False}\<close> with or without an \<open>error\<close>, or the full report of a
  fan-out.
\<close>

record publish_report =
  success :: bool
  error :: "string option"
  successful_platforms :: "nat option"
  total_platforms :: "nat option"
  results :: "(string \<times> pyresult) list option"

definition publish_failed :: "string option \<Rightarrow> publish_report" where
  "publish_failed msg =
     \<lparr>success = False, error = msg, successful_platforms = None, total_platforms = None,
      results = None\<rparr>"

text \<open>
  \<open>sum(1 for result in results.values() if result.get('success', False))\<close>: a result that
  is \<open>None\<close> has no \<open>get\<close>, and the sum raises.
\<close>

fun successful_publications :: "(string \<times> pyresult) list \<Rightarrow> exn + nat" where
  "successful_publications [] = Inr 0"
| "successful_publications ((name, ResNone) # rest) =
     Inl (AttributeError ([CHR 0x27] @ ''NoneType'' @ [CHR 0x27] @ '' object has no attribute ''
                          @ [CHR 0x27] @ ''get'' @ [CHR 0x27]))"
| "successful_publications ((name, ResDict result) # rest) =
     (case successful_publications rest of
        Inl ex \<Rightarrow> Inl ex
      | Inr n \<Rightarrow> Inr (if truthy (get_default result ''success'' (PBool False)) then Suc n else n))"

text \<open>
  \<open>BlogScheduler._publish_blog\<close>: every exception inside it is caught and turned into
  \<open>{'success': False, 'error': str(e)}\<close>.
\<close>

definition publish_blog ::
  "(string \<times> publisher) list \<Rightarrow> pydict \<Rightarrow> string list option \<Rightarrow> string list
     \<Rightarrow> publish_report \<times> string list" where
  "publish_blog pubs blog_data platforms cs =
     (if pubs = [] then (publish_failed (Some ''No publishers configured''), cs)
      else
        let targets = target_platforms pubs platforms
        in case getitem blog_data ''title'' of
             Inl ex \<Rightarrow> (publish_failed (Some (str_exn ex)), cs)
           | Inr title \<Rightarrow>
          (case getitem blog_data ''content'' of
             Inl ex \<Rightarrow> (publish_failed (Some (str_exn ex)), cs)
           | Inr content \<Rightarrow>
          (case publish_to_all pubs title content (get_default blog_data ''tags'' (PList []))
                  (Some targets) cs of
             (res, cs') \<Rightarrow>
               (case successful_publications res of
                  Inl ex \<Rightarrow> (publish_failed (Some (str_exn ex)), cs')
                | Inr n \<Rightarrow>
                    (\<lparr>success = (n > 0), error = None, successful_platforms = Some n,
                      total_platforms = Some (length targets), results = Some res\<rparr>, cs')))))"

text \<open>
  \<open>BlogScheduler._select_topic\<close>: a random element of the topics, or of four default
  topics when there are none.
\<close>

definition select_topic :: "env \<Rightarrow> string list \<Rightarrow> string" where
  "select_topic e topics =
     (let ts = (if topics = []
                then [''artificial intelligence'', ''technology trends'', ''programming'',
                      ''web development'']
                else topics)
      in ts ! (choice e mod length ts))"

text \<open>
  \<open>BlogScheduler._save_blog_to_database\<close>, at the \<open>n\<close>-th insert of the run. It gives
  back the dictionary as the caller sees it afterwards (MongoDB stamps it with
  \<open>saved_at\<close>) and the stored posts. The MySQL branch is taken when the database
  type is \<open>mysql\<close> and the two module globals are set; its row takes its columns from
  the dictionary, with defaults, and the \<open>tags\<close> column, the JSON text of the tags, is
  kept as the value itself. In every other case nothing is stored and nothing is
  raised. An exception of the storage engine (connecting, inserting, committing) is
  raised again to the caller.
\<close>

definition save_blog_to_database ::
  "env \<Rightarrow> nat \<Rightarrow> pydict \<Rightarrow> pydict list \<Rightarrow> exn + (pydict \<times> pydict list)" where
  "save_blog_to_database e n blog_data db =
     (if lower (DATABASE_TYPE (cfg e)) = ''mongodb'' then
        let doc = AList.update ''saved_at'' (PStr (now e)) blog_data
        in (case insert_error e n of
              Some ex \<Rightarrow> Inl ex
            | None \<Rightarrow> Inr (doc, db @ [doc]))
      else if lower (DATABASE_TYPE (cfg e)) = ''mysql'' \<and> get_mysql_session e \<and> BlogPost e then
        (case getitem blog_data ''title'' of Inl ex \<Rightarrow> Inl ex | Inr title \<Rightarrow>
        (case getitem blog_data ''content'' of Inl ex \<Rightarrow> Inl ex | Inr content \<Rightarrow>
           let row = [(''title'', title),
                      (''content'', content),
                      (''topic'', get_default blog_data ''topic'' (PStr ''general'')),
                      (''status'', get_default blog_data ''status'' (PStr ''draft'')),
                      (''word_count'', get_default blog_data ''word_count'' (PInt 0)),
                      (''tags'', get_default blog_data ''tags'' (PList [])),
                      (''is_auto_generated'', PBool True),
                      (''source_url'', get_default blog_data ''source_url'' PNone)]
           in (case insert_error e n of
                 Some ex \<Rightarrow> Inl ex
               | None \<Rightarrow> Inr (blog_data, db @ [row]))))
      else Inr (blog_data, db))"

text \<open>
  A report of one post: the dictionary \<open>_generate_and_publish_blog\<close> returns, and an
  entry of the \<open>results\<close> of a series, which has a \<open>post_number\<close> in addition and whose
  \<open>publish_result\<close> is \<open>None\<close> when nothing was to be published.
\<close>

record run_report =
  post_number :: "nat option"
  generation_success :: bool
  publish_result :: "publish_report option"
  blog_data :: "pydict option"
  run_error :: "string option"

definition add_stats :: "int \<Rightarrow> int \<Rightarrow> int \<Rightarrow> int \<Rightarrow> statistics \<Rightarrow> statistics" where
  "add_stats g p fg fp st =
     st\<lparr>total_generated := total_generated st + g,
        total_published := total_published st + p,
        failed_generations := failed_generations st + fg,
        failed_publications := failed_publications st + fp\<rparr>"

text \<open>
  \<open>BlogScheduler._generate_and_publish_blog\<close>, the job body. Generation and saving are
  the only steps that can raise; whatever they raise is caught at the end of the
  function, counted in \<open>failed_generations\<close> and reported. The counters of the
  publication are updated after the \<open>if publish_immediately\<close> block, from a
  \<open>publish_result\<close> that starts as \<open>{'success': False}\<close>. \<open>_save_statistics\<close> writes the
  counters to the store and catches its own exceptions; it changes nothing here.
\<close>

definition generate_and_publish_blog ::
  "env \<Rightarrow> string list \<Rightarrow> int \<Rightarrow> bool \<Rightarrow> string list option \<Rightarrow> scheduler
     \<Rightarrow> run_report \<times> scheduler" where
  "generate_and_publish_blog e topics max_words publish_immediately platforms s =
     (let topic = select_topic e topics;
          failed = (\<lambda>ex.
            (\<lparr>post_number = None, generation_success = False, publish_result = None,
              blog_data = None, run_error = Some (str_exn ex)\<rparr>,
             s\<lparr>stats := add_stats 0 0 1 0 (stats s)\<rparr>))
      in case generate_blog e 0 topic max_words of
           Inl ex \<Rightarrow> failed ex
         | Inr generated \<Rightarrow>
        (case save_blog_to_database e 0 generated (blog_posts s) of
           Inl ex \<Rightarrow> failed ex
         | Inr (saved, db) \<Rightarrow>
             let st1 = (add_stats 1 0 0 0 (stats s))\<lparr>last_generation := Some (now e)\<rparr>;
                 (pr, cs) = (if publish_immediately
                             then publish_blog (publishers s) saved platforms (calls s)
                             else (publish_failed None, calls s));
                 st2 = (if success pr
                        then (add_stats 0 1 0 0 st1)\<lparr>last_publication := Some (now e)\<rparr>
                        else add_stats 0 0 0 1 st1)
             in (\<lparr>post_number = None, generation_success = True, publish_result = Some pr,
                  blog_data = Some saved, run_error = None\<rparr>,
                 s\<lparr>stats := st2, blog_posts := db, calls := cs\<rparr>)))"

text \<open>\<open>BlogScheduler.manual_blog_generation\<close>, the manual trigger of the job body.\<close>

definition manual_blog_generation ::
  "env \<Rightarrow> string \<Rightarrow> int \<Rightarrow> bool \<Rightarrow> string list option \<Rightarrow> scheduler \<Rightarrow> run_report \<times> scheduler" where
  "manual_blog_generation e topic max_words publish_immediately platforms s =
     generate_and_publish_blog e [topic] max_words publish_immediately platforms s"

text \<open>
  One round of the loop of \<open>BlogScheduler._generate_blog_series\<close>, for post \<open>i\<close> of an
  already generated series. The state of the loop is the list of reports, the number
  of published posts and the scheduler. Saving is the only step that can raise; the
  exception is caught inside the loop, counted in \<open>failed_generations\<close> and reported for
  this post. Here the counters of the publication are updated inside the
  \<open>if publish_immediately\<close> block.
\<close>

definition series_post ::
  "env \<Rightarrow> bool \<Rightarrow> string list option \<Rightarrow> nat \<Rightarrow> pydict \<Rightarrow> run_report list \<times> nat \<times> scheduler
     \<Rightarrow> run_report list \<times> nat \<times> scheduler" where
  "series_post e publish_immediately platforms i generated acc =
     (case acc of (reports, published_count, s) \<Rightarrow>
       (case save_blog_to_database e (i - 1) generated (blog_posts s) of
          Inl ex \<Rightarrow>
            (reports @ [\<lparr>post_number = Some i, generation_success = False, publish_result = None,
                         blog_data = None, run_error = Some (str_exn ex)\<rparr>],
             published_count,
             s\<lparr>stats := add_stats 0 0 1 0 (stats s)\<rparr>)
        | Inr (saved, db) \<Rightarrow>
            let st1 = add_stats 1 0 0 0 (stats s)
            in if publish_immediately then
                 (case publish_blog (publishers s) saved platforms (calls s) of
                    (pr, cs) \<Rightarrow>
                      (reports @ [\<lparr>post_number = Some i, generation_success = True,
                                   publish_result = Some pr, blog_data = Some saved,
                                   run_error = None\<rparr>],
                       (if success pr then published_count + 1 else published_count),
                       s\<lparr>stats := (if success pr then add_stats 0 1 0 0 st1
                                    else add_stats 0 0 0 1 st1),
                         blog_posts := db, calls := cs\<rparr>))
               else
                 (reports @ [\<lparr>post_number = Some i, generation_success = True,
                              publish_result = None, blog_data = Some saved, run_error = None\<rparr>],
                  published_count,
                  s\<lparr>stats := st1, blog_posts := db\<rparr>)))"

fun series_loop ::
  "env \<Rightarrow> bool \<Rightarrow> string list option \<Rightarrow> nat \<Rightarrow> pydict list \<Rightarrow> run_report list \<times> nat \<times> scheduler
     \<Rightarrow> run_report list \<times> nat \<times> scheduler" where
  "series_loop e publish_immediately platforms i [] acc = acc"
| "series_loop e publish_immediately platforms i (generated # rest) acc =
     series_loop e publish_immediately platforms (Suc i) rest
       (series_post e publish_immediately platforms i generated acc)"

text \<open>The dictionary \<open>_generate_blog_series\<close> returns.\<close>

record series_report =
  series_success :: bool
  series_error :: "string option"
  total_posts :: "nat option"
  published_posts :: "nat option"
  post_results :: "run_report list option"

text \<open>
  \<open>BlogScheduler._generate_blog_series\<close> (the scheduler's function; the generator's
  function of nearly the same name is \<open>generate_blog_series\<close> above). The whole series is
  generated first. An exception of that step is caught by the outer handler, which
  returns \<open>{'series_success': False, 'error': str(e)}\<close> and touches no counter.
\<close>

definition sched_generate_blog_series ::
  "env \<Rightarrow> string \<Rightarrow> int \<Rightarrow> bool \<Rightarrow> string list option \<Rightarrow> scheduler \<Rightarrow> series_report \<times> scheduler" where
  "sched_generate_blog_series e main_topic num_posts publish_immediately platforms s =
     (case generate_blog_series e main_topic num_posts of
        Inl ex \<Rightarrow>
          (\<lparr>series_success = False, series_error = Some (str_exn ex), total_posts = None,
            published_posts = None, post_results = None\<rparr>, s)
      | Inr blog_series \<Rightarrow>
          (case series_loop e publish_immediately platforms 1 blog_series ([], 0, s) of
             (reports, published_count, s') \<Rightarrow>
               (\<lparr>series_success = True, series_error = None,
                 total_posts = Some (length blog_series),
                 published_posts = Some published_count, post_results = Some reports\<rparr>,
                s'\<lparr>stats := (stats s')\<lparr>last_generation := Some (now e)\<rparr>\<rparr>)))"

text \<open>
  \<open>schedule.every().day.at(time_str)\<close> of the scheduling library, which is not part of
  the repository: \<open>at_accepts\<close> says which time strings the library takes, and it raises
  on the others.
\<close>

definition every_day_at :: "(string \<Rightarrow> bool) \<Rightarrow> string \<Rightarrow> exn + unit" where
  "every_day_at at_accepts time_str =
     (if at_accepts time_str then Inr () else Inl (ValueError ''Invalid time format''))"

text \<open>
  \<open>BlogScheduler.schedule_daily_blog_generation\<close>. The result is what the caller gets:
  \<open>Inr\<close> a returned value, \<open>Inl\<close> an exception. The body is one \<open>try\<close> block whose handler
  logs the exception and returns \<open>False\<close>; the job is registered by \<open>do\<close>, after \<open>at\<close>.
\<close>

definition schedule_daily_blog_generation ::
  "(string \<Rightarrow> bool) \<Rightarrow> string list \<Rightarrow> int \<Rightarrow> bool \<Rightarrow> string list option \<Rightarrow> string \<Rightarrow> scheduler
     \<Rightarrow> (exn + bool) \<times> scheduler" where
  "schedule_daily_blog_generation at_accepts topics max_words publish_immediately platforms
     time_str s =
     (case every_day_at at_accepts time_str of
        Inl ex \<Rightarrow> (Inr False, s)
      | Inr u \<Rightarrow>
          (Inr True,
           s\<lparr>jobs := jobs s @ [\<lparr>job_time = time_str, job_topics = topics,
                                job_max_words = max_words,
                                job_publish_immediately = publish_immediately,
                                job_platforms = platforms\<rparr>]\<rparr>))"

text \<open>
  Modelled from the spec: the check of the scheduling library is not in the repository;
  the spec asks for a \<open>timeOfDay\<close> that is a well-formed "HH:MM", read here as two digits,
  a colon and two digits, with the hour at most 23 and the minute at most 59.
\<close>

definition digit_val :: "char \<Rightarrow> nat option" where
  "digit_val c =
     (let n = (of_char c :: nat) in if 48 \<le> n \<and> n \<le> 57 then Some (n - 48) else None)"

definition well_formed_hhmm :: "string \<Rightarrow> bool" where
  "well_formed_hhmm t =
     (case t of
        [h1, h2, c, m1, m2] \<Rightarrow>
          (case (digit_val h1, digit_val h2, digit_val m1, digit_val m2) of
             (Some a, Some b, Some x, Some y) \<Rightarrow>
               c = CHR '':'' \<and> 10 * a + b \<le> 23 \<and> 10 * x + y \<le> 59
           | _ \<Rightarrow> False)
      | _ \<Rightarrow> False)"

text \<open>
  The operations that change the counters during the life of the process: the job body
  (run by a daily job, by the curation job and by the manual trigger) and the series.
\<close>

datatype invocation =
    JobBody env "string list" int bool "string list option"
  | Series env string int bool "string list option"

fun run_invocation :: "scheduler \<Rightarrow> invocation \<Rightarrow> scheduler" where
  "run_invocation s (JobBody e topics max_words publish_immediately platforms) =
     snd (generate_and_publish_blog e topics max_words publish_immediately platforms s)"
| "run_invocation s (Series e main_topic num_posts publish_immediately platforms) =
     snd (sched_generate_blog_series e main_topic num_posts publish_immediately platforms s)"

definition run_all :: "scheduler \<Rightarrow> invocation list \<Rightarrow> scheduler" where
  "run_all s invs = foldl run_invocation s invs"

fun is_job_body :: "invocation \<Rightarrow> bool" where
  "is_job_body (JobBody e topics max_words publish_immediately platforms) = True"
| "is_job_body (Series e main_topic num_posts publish_immediately platforms) = False"

section \<open>Example publishers\<close>

text \<open>
  Publishers for the examples below: a WordPress site that accepts every post, a
  publisher whose \<open>publish_post\<close> raises, an object of none of the four classes, and a
  Next.js site whose API answers a POST with status 200.
\<close>

definition wordpress_ok :: publisher where
  "wordpress_ok =
     \<lparr>pclass = WordPressPublisher,
      publish_post = (\<lambda>n title content tags.
        Inr (ResDict [(''success'', PBool True), (''post_id'', PInt 7),
                      (''url'', PStr ''https://a.example/?p=7''), (''status'', PStr ''publish'')]))\<rparr>"

definition custom_raising :: publisher where
  "custom_raising =
     \<lparr>pclass = CustomWebsitePublisher,
      publish_post = (\<lambda>n title content tags. Inl (ExternalError ''connection reset''))\<rparr>"

definition other_object :: publisher where
  "other_object =
     \<lparr>pclass = OtherClass,
      publish_post = (\<lambda>n title content tags. Inr (ResDict [(''success'', PBool True)]))\<rparr>"

definition nextjs_reply_200 :: publisher where
  "nextjs_reply_200 =
     \<lparr>pclass = NextJSAPIPublisher,
      publish_post = (\<lambda>n title content tags.
        nextjs_publish_post (\<lambda>v. ''None'') (\<lambda>code. ''error'') (Reply 200 [(''id'', PStr ''42'')]))\<rparr>"

section \<open>Example environments\<close>

text \<open>
  An environment of a MongoDB installation (the two MySQL globals are \<open>None\<close>) in which
  the generator answers every request with the same four-word post and reports 250
  words for it, and no insert fails; and
  a scheduler that has done nothing yet, with a given registry.
\<close>

definition mongo_env :: env where
  "mongo_env =
     \<lparr>cfg = \<lparr>DATABASE_TYPE = ''mongodb'', BLOG_MAX_LENGTH = 1000\<rparr>,
      now = ''2025-01-01T09:00:00'',
      choice = 0,
      generate_content = (\<lambda>n topic max_words.
        Inr [(''title'', PStr ''Notes on x''), (''content'', PStr ''one two three four''),
             (''tags'', PList [''x'']), (''word_count'', PInt 250)]),
      series_plan_response = None,
      insert_error = (\<lambda>n. None),
      get_mysql_session = False,
      BlogPost = False\<rparr>"

definition new_scheduler :: "(string \<times> publisher) list \<Rightarrow> scheduler" where
  "new_scheduler pubs =
     \<lparr>stats = \<lparr>total_generated = 0, total_published = 0, failed_generations = 0,
               failed_publications = 0, last_generation = None, last_publication = None\<rparr>,
      publishers = pubs, blog_posts = [], calls = [], jobs = []\<rparr>"

text \<open>
  The same environment with a generator whose second request of a run fails, and with
  a storage engine whose second insert of a run fails.
\<close>

definition second_generation_fails :: env where
  "second_generation_fails =
     mongo_env\<lparr>generate_content := (\<lambda>n topic max_words.
       if n = 1 then Inl (ExternalError ''model unavailable'')
       else Inr [(''title'', PStr ''Notes on x''), (''content'', PStr ''one two three four''),
                 (''tags'', PList [''x'']), (''word_count'', PInt 250)])\<rparr>"


section \<open>The fan-out of the publisher manager\<close>

lemma call_publisher_calls:
  "snd (call_publisher p name title content tags st) = snd st @ [name]"
  by (cases st) (simp add: call_publisher_def split: sum.splits)

lemma call_publisher_other:
  "q \<noteq> name \<Longrightarrow> map_of (fst (call_publisher p name title content tags st)) q = map_of (fst st) q"
  by (cases st) (simp add: call_publisher_def update_conv split: sum.splits)

lemma update_key_set: "fst ` set (AList.update k v al) = insert k (fst ` set al)"
proof -
  have "set (map fst (AList.update k v al)) = insert k (set (map fst al))"
    by (auto simp add: update_keys)
  then show ?thesis by simp
qed

lemma call_publisher_keys:
  "fst ` set (fst (call_publisher p name title content tags st)) = insert name (fst ` set (fst st))"
  by (cases st) (simp add: call_publisher_def update_key_set split: sum.splits)

lemma publish_step_calls:
  "snd (publish_step pubs title content tags st name) =
     snd st @ (if attempted pubs name then [name] else [])"
  by (simp add: publish_step_def attempted_def call_publisher_calls
           split: option.splits publisher_class.splits)

lemma publish_step_other:
  "q \<noteq> name \<Longrightarrow> map_of (fst (publish_step pubs title content tags st name)) q = map_of (fst st) q"
  by (simp add: publish_step_def call_publisher_other update_conv
           split: option.splits publisher_class.splits)

lemma publish_step_keys:
  "fst ` set (fst (publish_step pubs title content tags st name)) = insert name (fst ` set (fst st))"
  by (simp add: publish_step_def call_publisher_keys update_key_set
           split: option.splits publisher_class.splits)

lemma foldl_publish_calls:
  "snd (foldl (publish_step pubs title content tags) st targets) =
     snd st @ filter (attempted pubs) targets"
  by (induction targets arbitrary: st) (simp_all add: publish_step_calls)

lemma foldl_publish_other:
  "q \<notin> set targets \<Longrightarrow>
   map_of (fst (foldl (publish_step pubs title content tags) st targets)) q = map_of (fst st) q"
  by (induction targets arbitrary: st) (simp_all add: publish_step_other)

lemma foldl_publish_keys:
  "fst ` set (fst (foldl (publish_step pubs title content tags) st targets)) =
     set targets \<union> fst ` set (fst st)"
  by (induction targets arbitrary: st) (simp_all add: publish_step_keys)

text \<open>The entry of a name is written by the round of its last occurrence.\<close>

lemma foldl_publish_last:
  assumes "q \<notin> set after"
  shows "map_of (fst (foldl (publish_step pubs title content tags) st (before @ q # after))) q =
         map_of (fst (publish_step pubs title content tags
                        (fst (foldl (publish_step pubs title content tags) st before),
                         snd st @ filter (attempted pubs) before) q)) q"
proof -
  let ?f = "publish_step pubs title content tags"
  have "foldl ?f st (before @ q # after) = foldl ?f (?f (foldl ?f st before) q) after"
    by simp
  moreover have "foldl ?f st before = (fst (foldl ?f st before), snd st @ filter (attempted pubs) before)"
    by (simp add: prod_eq_iff foldl_publish_calls)
  ultimately show ?thesis
    using assms by (metis foldl_publish_other)
qed

lemma publish_step_unregistered:
  "map_of pubs name = None \<Longrightarrow>
   map_of (fst (publish_step pubs title content tags st name)) name =
     Some (ResDict [(''success'', PBool False), (''error'', PStr ''Publisher not configured'')])"
  by (simp add: publish_step_def update_conv)

lemma publish_step_other_class:
  "map_of pubs name = Some p \<Longrightarrow> pclass p = OtherClass \<Longrightarrow>
   map_of (fst (publish_step pubs title content tags st name)) name =
     Some (ResDict [(''success'', PBool False), (''error'', PStr ''Unknown publisher type'')])"
  by (simp add: publish_step_def update_conv)


lemma publish_loop_calls:
  "snd (publish_loop pubs title content tags targets cs) = cs @ filter (attempted pubs) targets"
  by (simp add: publish_loop_def foldl_publish_calls)

lemma publish_loop_keys:
  "fst ` set (fst (publish_loop pubs title content tags targets cs)) = set targets"
  by (simp add: publish_loop_def foldl_publish_keys)

text \<open>
  Claim C10. When a target name is registered with an object of none of the four
  publisher classes, the fan-out records \<open>{'success': False, 'error': 'Unknown publisher
  type'}\<close> for that name, and the number of \<open>publish_post\<close> calls logged for the name
  is what it was before the fan-out: the object's method is never called.
\<close>

theorem unknown_publisher_type_not_invoked:
  assumes "map_of pubs name = Some p"
    and "pclass p = OtherClass"
    and "name \<in> set (target_platforms pubs platforms)"
  shows "map_of (fst (publish_to_all pubs title content tags platforms cs)) name =
           Some (ResDict [(''success'', PBool False), (''error'', PStr ''Unknown publisher type'')])
         \<and> count_list (snd (publish_to_all pubs title content tags platforms cs)) name =
           count_list cs name"
proof -
  obtain before after
    where sp: "target_platforms pubs platforms = before @ name # after" and last: "name \<notin> set after"
    using assms(3) by (blast dest: split_list_last)
  have entry: "map_of (fst (publish_to_all pubs title content tags platforms cs)) name =
      Some (ResDict [(''success'', PBool False), (''error'', PStr ''Unknown publisher type'')])"
    unfolding publish_to_all_def publish_loop_def sp
    by (simp only: foldl_publish_last [OF last] publish_step_other_class [OF assms(1,2)])
  have "\<not> attempted pubs name"
    using assms(1,2) by (simp add: attempted_def)
  then have "count_list (filter (attempted pubs) (target_platforms pubs platforms)) name = 0"
    by (simp add: count_list_0_iff)
  then have "count_list (snd (publish_to_all pubs title content tags platforms cs)) name =
      count_list cs name"
    by (simp add: publish_to_all_def publish_loop_calls)
  with entry show ?thesis by simp
qed

text \<open>
  The theorem at a registry with a WordPress site and such an object.
\<close>

theorem unknown_publisher_type_not_invoked_witness:
  "map_of (fst (publish_to_all [(''site-a'', wordpress_ok), (''legacy'', other_object)]
                  (PStr ''Title'') (PStr ''Body'') (PList []) (Some [''legacy'', ''site-a'']) []))
          ''legacy'' =
     Some (ResDict [(''success'', PBool False), (''error'', PStr ''Unknown publisher type'')])
   \<and> count_list (snd (publish_to_all [(''site-a'', wordpress_ok), (''legacy'', other_object)]
                  (PStr ''Title'') (PStr ''Body'') (PList []) (Some [''legacy'', ''site-a'']) []))
          ''legacy'' = 0"
  using unknown_publisher_type_not_invoked
          [of "[(''site-a'', wordpress_ok), (''legacy'', other_object)]" "''legacy''" other_object
              "Some [''legacy'', ''site-a'']" "PStr ''Title''" "PStr ''Body''" "PList []" "[]"]
  by (simp add: other_object_def target_platforms_def)

text \<open>The entry of a platform is what the round of its last occurrence writes.\<close>

lemma publish_step_returns:
  "map_of pubs name = Some p \<Longrightarrow> pclass p \<noteq> OtherClass \<Longrightarrow>
   publish_post p (length cs) title content tags = Inr res \<Longrightarrow>
   map_of (fst (publish_step pubs title content tags (acc, cs) name)) name = Some res"
  by (simp add: publish_step_def call_publisher_def update_conv split: publisher_class.splits)

lemma publish_loop_returns:
  assumes "targets = before @ name # after"
    and "name \<notin> set after"
    and "map_of pubs name = Some p"
    and "pclass p \<noteq> OtherClass"
    and "publish_post p (length cs + length (filter (attempted pubs) before)) title content tags
           = Inr res"
  shows "map_of (fst (publish_loop pubs title content tags targets cs)) name = Some res"
proof -
  let ?f = "publish_step pubs title content tags"
  have call: "publish_post p (length (cs @ filter (attempted pubs) before)) title content tags
      = Inr res"
    using assms(5) by simp
  have "map_of (fst (foldl ?f ([], cs) (before @ name # after))) name =
      map_of (fst (?f (fst (foldl ?f ([], cs) before), cs @ filter (attempted pubs) before) name)) name"
    using foldl_publish_last [OF assms(2), of pubs title content tags "([], cs)" before] by simp
  also have "\<dots> = Some res"
    by (rule publish_step_returns [OF assms(3,4) call])
  finally show ?thesis
    by (simp add: publish_loop_def assms(1))
qed


text \<open>
  Claim C2 as stated fails twice. In a fan-out over \<open>site-c\<close>, \<open>legacy\<close> and \<open>site-a\<close>, where
  \<open>site-c\<close> is not registered, \<open>legacy\<close> is registered with an object of none of the four
  classes and \<open>site-a\<close> is a WordPress site, the entry of \<open>site-c\<close> is
  \<open>{'success': False, 'error': 'Publisher not configured'}\<close>, and that text is not
  \<open>not configured\<close>; and the only call made is that of \<open>site-a\<close>: the registered name
  \<open>legacy\<close> is not attempted.
\<close>

theorem not_configured_message_counterexample:
  "map_of (fst (publish_to_all [(''site-a'', wordpress_ok), (''legacy'', other_object)]
                  (PStr ''Title'') (PStr ''Body'') (PList [])
                  (Some [''site-c'', ''legacy'', ''site-a'']) []))
          ''site-c'' =
     Some (ResDict [(''success'', PBool False), (''error'', PStr ''Publisher not configured'')])
   \<and> PStr ''Publisher not configured'' \<noteq> PStr ''not configured''
   \<and> map_of [(''site-a'', wordpress_ok), (''legacy'', other_object)] ''legacy'' = Some other_object
   \<and> snd (publish_to_all [(''site-a'', wordpress_ok), (''legacy'', other_object)]
                  (PStr ''Title'') (PStr ''Body'') (PList [])
                  (Some [''site-c'', ''legacy'', ''site-a'']) []) = [''site-a'']"
  by (simp add: publish_to_all_def publish_loop_def target_platforms_def publish_step_def
        call_publisher_def wordpress_ok_def other_object_def)

text \<open>
  Claim C2, amended. When the target list contains a name that is not registered, the
  entry of that name is \<open>{'success': False, 'error': 'Publisher not configured'}\<close>, no
  \<open>publish_post\<close> call is logged for it, the calls of the fan-out are exactly the target
  names registered with an object of one of the four classes, in the order of the
  list, and every target name has an entry. Such a registered name \<open>sibling\<close> is attempted
  as if the unknown name were not there: when the call of its last occurrence returns
  \<open>res\<close>, its entry is \<open>res\<close>.
\<close>

theorem unregistered_platform_not_configured:
  assumes "map_of pubs name = None"
    and "name \<in> set (target_platforms pubs platforms)"
  shows "map_of (fst (publish_to_all pubs title content tags platforms cs)) name =
           Some (ResDict [(''success'', PBool False), (''error'', PStr ''Publisher not configured'')])
         \<and> count_list (snd (publish_to_all pubs title content tags platforms cs)) name =
           count_list cs name
         \<and> snd (publish_to_all pubs title content tags platforms cs) =
           cs @ filter (attempted pubs) (target_platforms pubs platforms)
         \<and> fst ` set (fst (publish_to_all pubs title content tags platforms cs)) =
           set (target_platforms pubs platforms)
         \<and> (target_platforms pubs platforms = before @ sibling # after
              \<and> sibling \<notin> set after
              \<and> map_of pubs sibling = Some p
              \<and> pclass p \<noteq> OtherClass
              \<and> publish_post p (length cs + length (filter (attempted pubs) before))
                    title content tags = Inr res
              \<longrightarrow> map_of (fst (publish_to_all pubs title content tags platforms cs)) sibling
                    = Some res)"
proof -
  obtain bf af
    where sp: "target_platforms pubs platforms = bf @ name # af" and last: "name \<notin> set af"
    using assms(2) by (blast dest: split_list_last)
  have entry: "map_of (fst (publish_to_all pubs title content tags platforms cs)) name =
      Some (ResDict [(''success'', PBool False), (''error'', PStr ''Publisher not configured'')])"
    unfolding publish_to_all_def publish_loop_def sp
    by (simp only: foldl_publish_last [OF last] publish_step_unregistered [OF assms(1)])
  have cs': "snd (publish_to_all pubs title content tags platforms cs) =
      cs @ filter (attempted pubs) (target_platforms pubs platforms)"
    by (simp add: publish_to_all_def publish_loop_calls)
  have "\<not> attempted pubs name"
    using assms(1) by (simp add: attempted_def)
  then have "count_list (filter (attempted pubs) (target_platforms pubs platforms)) name = 0"
    by (simp add: count_list_0_iff)
  with cs' have cnt: "count_list (snd (publish_to_all pubs title content tags platforms cs)) name =
      count_list cs name"
    by simp
  have keys: "fst ` set (fst (publish_to_all pubs title content tags platforms cs)) =
      set (target_platforms pubs platforms)"
    by (simp add: publish_to_all_def publish_loop_keys)
  have sib: "target_platforms pubs platforms = before @ sibling # after
      \<and> sibling \<notin> set after
      \<and> map_of pubs sibling = Some p
      \<and> pclass p \<noteq> OtherClass
      \<and> publish_post p (length cs + length (filter (attempted pubs) before))
            title content tags = Inr res
      \<longrightarrow> map_of (fst (publish_to_all pubs title content tags platforms cs)) sibling = Some res"
  proof (rule impI)
    assume h: "target_platforms pubs platforms = before @ sibling # after
      \<and> sibling \<notin> set after
      \<and> map_of pubs sibling = Some p
      \<and> pclass p \<noteq> OtherClass
      \<and> publish_post p (length cs + length (filter (attempted pubs) before))
            title content tags = Inr res"
    show "map_of (fst (publish_to_all pubs title content tags platforms cs)) sibling = Some res"
      unfolding publish_to_all_def
      by (rule publish_loop_returns
            [OF h [THEN conjunct1] h [THEN conjunct2, THEN conjunct1]
                h [THEN conjunct2, THEN conjunct2, THEN conjunct1]
                h [THEN conjunct2, THEN conjunct2, THEN conjunct2, THEN conjunct1]
                h [THEN conjunct2, THEN conjunct2, THEN conjunct2, THEN conjunct2]])
  qed
  from entry cnt cs' keys sib show ?thesis by (simp only: simp_thms)
qed

text \<open>
  The theorem at a registry with one WordPress site and the targets \<open>site-c\<close>, \<open>site-a\<close>.
\<close>

theorem unregistered_platform_not_configured_witness:
  "map_of (fst (publish_to_all [(''site-a'', wordpress_ok)]
                  (PStr ''Title'') (PStr ''Body'') (PList []) (Some [''site-c'', ''site-a'']) []))
          ''site-c'' =
     Some (ResDict [(''success'', PBool False), (''error'', PStr ''Publisher not configured'')])
   \<and> snd (publish_to_all [(''site-a'', wordpress_ok)]
                  (PStr ''Title'') (PStr ''Body'') (PList []) (Some [''site-c'', ''site-a'']) []) =
     [''site-a'']
   \<and> map_of (fst (publish_to_all [(''site-a'', wordpress_ok)]
                  (PStr ''Title'') (PStr ''Body'') (PList []) (Some [''site-c'', ''site-a'']) []))
          ''site-a'' =
     Some (ResDict [(''success'', PBool True), (''post_id'', PInt 7),
                    (''url'', PStr ''https://a.example/?p=7''), (''status'', PStr ''publish'')])"
  using unregistered_platform_not_configured
          [of "[(''site-a'', wordpress_ok)]" "''site-c''" "Some [''site-c'', ''site-a'']"
              "PStr ''Title''" "PStr ''Body''" "PList []" "[]"
              "[''site-c'']" "''site-a''" "[]" wordpress_ok
              "ResDict [(''success'', PBool True), (''post_id'', PInt 7),
                        (''url'', PStr ''https://a.example/?p=7''), (''status'', PStr ''publish'')]"]
  by (simp add: target_platforms_def attempted_def wordpress_ok_def)



section \<open>The stored record\<close>

lemma isspace_simps [simp]:
  "isspace (CHR '' '')" "\<not> isspace (CHR ''x'')"
  by (simp_all add: isspace_def)

lemma processed_fields:
  assumes "map_of raw ''content'' = Some (PStr c)"
    and "map_of raw ''title'' = Some (PStr t)"
  shows "\<exists>d. process_blog_content cf nw raw topic = Inr d
           \<and> map_of d ''word_count'' =
               Some (PInt (min (int (length (split (ensure_heading_structure (strip c)))))
                               (BLOG_MAX_LENGTH cf)))
           \<and> map_of d ''status'' = Some (PStr ''draft'')
           \<and> map_of d ''title'' = Some (PStr t)
           \<and> map_of d ''content'' =
               Some (PStr (if int (length (split (ensure_heading_structure (strip c)))) > BLOG_MAX_LENGTH cf
                           then trim_content (ensure_heading_structure (strip c)) (BLOG_MAX_LENGTH cf)
                           else ensure_heading_structure (strip c)))"
  using assms
  by (simp add: process_blog_content_def getitem_def update_conv Let_def min_def)

text \<open>What every successfully processed post has.\<close>

lemma process_blog_content_Inr:
  assumes "process_blog_content cf nw raw topic = Inr d"
  shows "map_of d ''status'' = Some (PStr ''draft'')
         \<and> (\<exists>t. map_of d ''title'' = Some t) \<and> (\<exists>c. map_of d ''content'' = Some c)
         \<and> (\<exists>w. map_of d ''word_count'' = Some w)"
  using assms
  by (auto simp add: process_blog_content_def getitem_def update_conv Let_def
           split: option.splits sum.splits)

lemma generate_blog_Inr:
  assumes "generate_blog e n topic max_words = Inr d"
  shows "map_of d ''status'' = Some (PStr ''draft'')
         \<and> (\<exists>t. map_of d ''title'' = Some t) \<and> (\<exists>c. map_of d ''content'' = Some c)
         \<and> (\<exists>w. map_of d ''word_count'' = Some w)"
  using assms process_blog_content_Inr
  by (auto simp add: generate_blog_def split: if_splits sum.splits)

text \<open>
  A successful save on MongoDB appends one document, which has the status and the word
  count of the post.
\<close>

lemma save_blog_to_database_Inr:
  assumes "save_blog_to_database e n d db = Inr (saved, db')"
    and "lower (DATABASE_TYPE (cfg e)) = ''mongodb''"
    and "map_of d ''status'' = Some st"
    and "map_of d ''word_count'' = Some w"
  shows "\<exists>doc. db' = db @ [doc] \<and> map_of doc ''status'' = Some st
           \<and> map_of doc ''word_count'' = Some w"
  using assms
  by (auto simp add: save_blog_to_database_def update_conv Let_def split: option.splits)

text \<open>
  Claim C1, amended. Whenever the job body generates a post on MongoDB, exactly one
  record is added to the stored posts and its status is \<open>draft\<close>, whether the run
  publishes or not and whatever the platforms answer: the record is written before the
  fan-out and nothing writes to it afterwards.
\<close>

theorem stored_status_stays_draft:
  assumes "generate_and_publish_blog e topics max_words publish_immediately platforms s = (r, s')"
    and "generation_success r"
    and "lower (DATABASE_TYPE (cfg e)) = ''mongodb''"
  shows "\<exists>doc. blog_posts s' = blog_posts s @ [doc]
           \<and> map_of doc ''status'' = Some (PStr ''draft'')"
proof (cases "generate_blog e 0 (select_topic e topics) max_words")
  case (Inl ex)
  with assms(1,2) show ?thesis
    by (auto simp add: generate_and_publish_blog_def Let_def)
next
  case (Inr generated)
  note gen = this
  from generate_blog_Inr [OF gen] obtain w
    where st: "map_of generated ''status'' = Some (PStr ''draft'')"
      and wc: "map_of generated ''word_count'' = Some w"
    by blast
  show ?thesis
  proof (cases "save_blog_to_database e 0 generated (blog_posts s)")
    case (Inl ex)
    with gen assms(1,2) show ?thesis
      by (auto simp add: generate_and_publish_blog_def Let_def)
  next
    case (Inr p)
    obtain saved db where p: "p = (saved, db)" by (cases p)
    from save_blog_to_database_Inr [OF Inr [unfolded p] assms(3) st wc]
    obtain doc where rec: "db = blog_posts s @ [doc]"
      "map_of doc ''status'' = Some (PStr ''draft'')"
      by blast
    from assms(1) gen Inr p have "blog_posts s' = db"
      by (auto simp add: generate_and_publish_blog_def Let_def split: prod.splits)
    with rec show ?thesis by simp
  qed
qed


text \<open>The definitions a run at a concrete input unfolds.\<close>

lemmas run_defs =
  generate_and_publish_blog_def manual_blog_generation_def select_topic_def generate_blog_def
  process_blog_content_def save_blog_to_database_def publish_blog_def publish_to_all_def
  publish_loop_def publish_step_def call_publisher_def target_platforms_def getitem_def
  get_default_def add_stats_def publish_failed_def new_scheduler_def mongo_env_def
  wordpress_ok_def nextjs_reply_200_def custom_raising_def other_object_def failed_post_def

lemma strip_x: "strip ''x'' = ''x''"
  by (simp add: strip_def)

lemma lower_mongodb: "lower ''mongodb'' = ''mongodb''"
  by (simp add: lower_def lower_char_def)

lemma words_four: "split (ensure_heading_structure (strip ''one two three four'')) =
  [''one'', ''two'', ''three'', ''four'']"
  by code_simp

text \<open>
  Claim C1 as stated fails: a run that publishes to one platform, which accepts the
  post (one success out of one), leaves the stored record with the status \<open>draft\<close>,
  not \<open>published\<close>.
\<close>

theorem published_post_stays_draft_counterexample:
  "(case generate_and_publish_blog mongo_env [''x''] 800 True None
           (new_scheduler [(''site-a'', wordpress_ok)]) of
      (r, s') \<Rightarrow>
        generation_success r
        \<and> map_option successful_platforms (publish_result r) = Some (Some 1)
        \<and> map (\<lambda>doc. map_of doc ''status'') (blog_posts s') = [Some (PStr ''draft'')]
        \<and> PStr ''draft'' \<noteq> PStr ''published'')"
  by (simp add: run_defs strip_x lower_mongodb words_four Let_def update_conv)


text \<open>
  The amended claim at that same run.
\<close>

theorem stored_status_stays_draft_witness:
  "\<exists>doc. blog_posts (snd (generate_and_publish_blog mongo_env [''x''] 800 True None
                            (new_scheduler [(''site-a'', wordpress_ok)]))) = [doc]
         \<and> map_of doc ''status'' = Some (PStr ''draft'')"
proof -
  obtain r s' where run: "generate_and_publish_blog mongo_env [''x''] 800 True None
      (new_scheduler [(''site-a'', wordpress_ok)]) = (r, s')"
    by (cases "generate_and_publish_blog mongo_env [''x''] 800 True None
      (new_scheduler [(''site-a'', wordpress_ok)])")
  have ok: "generation_success r"
    using run by (auto simp add: run_defs strip_x lower_mongodb words_four Let_def)
  have db: "lower (DATABASE_TYPE (cfg mongo_env)) = ''mongodb''"
    by (simp add: mongo_env_def lower_mongodb)
  have empty: "blog_posts (new_scheduler [(''site-a'', wordpress_ok)]) = []"
    by (simp add: new_scheduler_def)
  have s': "snd (generate_and_publish_blog mongo_env [''x''] 800 True None
      (new_scheduler [(''site-a'', wordpress_ok)])) = s'"
    by (simp add: run)
  from stored_status_stays_draft [OF run ok db] show ?thesis
    unfolding s' empty by simp
qed

text \<open>
  Claim C9. Let the generator answer with a dictionary whose \<open>word_count\<close> is any
  value \<open>reported\<close>, whose content is the string \<open>c\<close> and whose title is a string, and let
  the insert succeed, on MongoDB. Then the post is generated and stored, and the
  \<open>word_count\<close> of the stored record is the number of words of the cleaned content
  (stripped, headings marked), capped at \<open>BLOG_MAX_LENGTH\<close>: it does not depend on
  \<open>reported\<close>. When the cap does not apply, the stored content is that cleaned content,
  so the stored count is exactly \<open>len(content.split())\<close> of the stored record.
\<close>

theorem stored_word_count_recomputed:
  assumes "strip topic \<noteq> []"
    and "generate_content e n topic max_words = Inr (AList.update ''word_count'' reported raw)"
    and "map_of raw ''content'' = Some (PStr c)"
    and "map_of raw ''title'' = Some (PStr t)"
    and "lower (DATABASE_TYPE (cfg e)) = ''mongodb''"
    and "insert_error e k = None"
  shows "\<exists>generated saved doc.
           generate_blog e n topic max_words = Inr generated
         \<and> save_blog_to_database e k generated db = Inr (saved, db @ [doc])
         \<and> map_of doc ''word_count'' =
             Some (PInt (min (int (length (split (ensure_heading_structure (strip c)))))
                             (BLOG_MAX_LENGTH (cfg e))))
         \<and> (int (length (split (ensure_heading_structure (strip c)))) \<le> BLOG_MAX_LENGTH (cfg e)
              \<longrightarrow> map_of doc ''content'' = Some (PStr (ensure_heading_structure (strip c))))"
proof -
  let ?raw = "AList.update ''word_count'' reported raw"
  let ?n = "int (length (split (ensure_heading_structure (strip c))))"
  have c: "map_of ?raw ''content'' = Some (PStr c)" and t: "map_of ?raw ''title'' = Some (PStr t)"
    using assms(3,4) by (simp_all add: update_conv)
  from processed_fields [OF c t, of "cfg e" "now e" topic]
  obtain d where d: "process_blog_content (cfg e) (now e) ?raw topic = Inr d"
    and wc: "map_of d ''word_count'' = Some (PInt (min ?n (BLOG_MAX_LENGTH (cfg e))))"
    and ti: "map_of d ''title'' = Some (PStr t)"
    and co: "map_of d ''content'' =
        Some (PStr (if ?n > BLOG_MAX_LENGTH (cfg e)
                    then trim_content (ensure_heading_structure (strip c)) (BLOG_MAX_LENGTH (cfg e))
                    else ensure_heading_structure (strip c)))"
    by blast
  have gen: "generate_blog e n topic max_words = Inr d"
    using assms(1,2) d by (simp add: generate_blog_def)
  let ?doc = "AList.update ''saved_at'' (PStr (now e)) d"
  have "save_blog_to_database e k d db = Inr (?doc, db @ [?doc])"
    using assms(5,6) by (simp add: save_blog_to_database_def Let_def)
  moreover have "map_of ?doc ''word_count'' = Some (PInt (min ?n (BLOG_MAX_LENGTH (cfg e))))"
    using wc by (simp add: update_conv)
  moreover have "?n \<le> BLOG_MAX_LENGTH (cfg e)
      \<longrightarrow> map_of ?doc ''content'' = Some (PStr (ensure_heading_structure (strip c)))"
    using co by (simp add: update_conv)
  ultimately show ?thesis using gen by blast
qed

text \<open>
  The theorem at a generator that reports 250 words for a post of four.
\<close>

theorem stored_word_count_recomputed_witness:
  "\<exists>generated saved doc.
       generate_blog mongo_env 0 ''x'' 800 = Inr generated
     \<and> save_blog_to_database mongo_env 0 generated [] = Inr (saved, [doc])
     \<and> map_of doc ''word_count'' = Some (PInt 4)
     \<and> map_of doc ''content'' = Some (PStr ''one two three four'')"
proof -
  have h1: "strip ''x'' \<noteq> []" by (simp add: strip_x)
  have h2: "generate_content mongo_env 0 ''x'' 800 =
      Inr (AList.update ''word_count'' (PInt 250)
            [(''title'', PStr ''Notes on x''), (''content'', PStr ''one two three four''),
             (''tags'', PList [''x'']), (''word_count'', PInt 0)])"
    by (simp add: mongo_env_def)
  have h3: "map_of [(''title'', PStr ''Notes on x''), (''content'', PStr ''one two three four''),
             (''tags'', PList [''x'']), (''word_count'', PInt 0)] ''content'' =
      Some (PStr ''one two three four'')" by simp
  have h4: "map_of [(''title'', PStr ''Notes on x''), (''content'', PStr ''one two three four''),
             (''tags'', PList [''x'']), (''word_count'', PInt 0)] ''title'' =
      Some (PStr ''Notes on x'')" by simp
  have h5: "lower (DATABASE_TYPE (cfg mongo_env)) = ''mongodb''"
    by (simp add: mongo_env_def lower_mongodb)
  have h6: "insert_error mongo_env 0 = None" by (simp add: mongo_env_def)
  have cleaned: "ensure_heading_structure (strip ''one two three four'') = ''one two three four''"
    by code_simp
  have four: "split ''one two three four'' = [''one'', ''two'', ''three'', ''four'']"
    by code_simp
  have bound: "BLOG_MAX_LENGTH (cfg mongo_env) = 1000" by (simp add: mongo_env_def)
  from stored_word_count_recomputed [OF h1 h2 h3 h4 h5 h6, of "[]"] show ?thesis
    by (simp add: cleaned four bound)
qed

text \<open>
  Every run of the job body that generates a post without publishing makes no publish
  call and counts one failed publication.
\<close>

lemma job_body_without_publishing:
  assumes "generate_and_publish_blog e topics max_words False pl s = (r, s')"
    and "generation_success r"
  shows "calls s' = calls s
         \<and> total_published (stats s') = total_published (stats s)
         \<and> failed_publications (stats s') = failed_publications (stats s) + 1
         \<and> total_generated (stats s') = total_generated (stats s) + 1"
  using assms
  by (auto simp add: generate_and_publish_blog_def add_stats_def publish_failed_def Let_def
           split: sum.splits prod.splits)

text \<open>
  Claim C6 fails on the code. A manual run with \<open>publish_immediately = False\<close> whose
  generation succeeds makes no publish call and leaves \<open>total_published\<close> alone, but it
  adds one to \<open>failed_publications\<close>: the counters are updated from the initial
  \<open>{'success': False}\<close>, outside the \<open>if publish_immediately\<close> block. The loop of the series
  (\<open>series_post\<close>) updates them inside that block.
\<close>

theorem unpublished_run_counts_failed_publication:
  "(case manual_blog_generation mongo_env ''x'' 800 False None
           (new_scheduler [(''site-a'', wordpress_ok)]) of
      (r, s') \<Rightarrow>
        generation_success r
        \<and> calls s' = []
        \<and> total_generated (stats s') = 1
        \<and> total_published (stats s') = 0
        \<and> failed_publications (stats s') = 1)"
  by (simp add: run_defs strip_x lower_mongodb words_four Let_def update_conv)

text \<open>The count of the successes is positive exactly when some entry has a true \<open>success\<close>.\<close>

lemma successful_publications_Inr:
  assumes "successful_publications res = Inr n"
  shows "(0 < n) = (\<exists>name d. (name, ResDict d) \<in> set res
                     \<and> truthy (get_default d ''success'' (PBool False)))"
  using assms
proof (induction res arbitrary: n rule: successful_publications.induct)
  case 1
  then show ?case by simp
next
  case (2 name rest)
  then show ?case by simp
next
  case (3 name result rest)
  from "3.prems" obtain m where m: "successful_publications rest = Inr m"
    and n: "n = (if truthy (get_default result ''success'' (PBool False)) then Suc m else m)"
    by (auto split: sum.splits)
  from "3.IH" [OF m] n show ?case by auto
qed

text \<open>
  When \<open>_publish_blog\<close> returns the results of the fan-out, which it does when every
  publisher gave a dictionary, its \<open>success\<close> is true exactly when the \<open>success\<close> of some
  entry is.
\<close>

lemma aggregate_success_of_dictionaries:
  assumes "publish_blog pubs post platforms cs = (pr, cs')"
    and "results pr = Some res"
  shows "success pr = (\<exists>name d. (name, ResDict d) \<in> set res
                         \<and> truthy (get_default d ''success'' (PBool False)))"
proof -
  from assms have "\<exists>n. successful_publications res = Inr n \<and> success pr = (0 < n)"
    by (auto simp add: publish_blog_def publish_failed_def Let_def
             split: if_splits sum.splits prod.splits)
  then obtain n where "successful_publications res = Inr n" and "success pr = (0 < n)"
    by blast
  with successful_publications_Inr [of res n] show ?thesis by simp
qed

text \<open>
  Claim C4 fails on the code. With a WordPress site that accepts the post and a Next.js
  site whose API answers 200, the fan-out calls both; the Next.js publisher returns
  \<open>None\<close> (it handles 201, 400, 401 and 429 and ends without a \<open>return\<close> for any other
  code below 400). Counting the successes then raises on \<open>None.get\<close>, \<open>_publish_blog\<close>
  catches the exception and reports \<open>success = False\<close> without the results, although the
  entry of the WordPress site has \<open>success = True\<close>.
\<close>

theorem aggregate_false_despite_success:
  "(case publish_to_all [(''site-a'', wordpress_ok), (''site-b'', nextjs_reply_200)]
           (PStr ''Notes on x'') (PStr ''one two three four'') (PList [''x''])
           (Some [''site-a'', ''site-b'']) [] of
      (res, cs) \<Rightarrow>
        map_of res ''site-a'' =
          Some (ResDict [(''success'', PBool True), (''post_id'', PInt 7),
                         (''url'', PStr ''https://a.example/?p=7''), (''status'', PStr ''publish'')])
        \<and> map_of res ''site-b'' = Some ResNone
        \<and> cs = [''site-a'', ''site-b''])
   \<and> (case publish_blog [(''site-a'', wordpress_ok), (''site-b'', nextjs_reply_200)]
           [(''title'', PStr ''Notes on x''), (''content'', PStr ''one two three four''),
            (''tags'', PList [''x''])] None [] of
      (pr, cs) \<Rightarrow> success pr = False \<and> results pr = None \<and> cs = [''site-a'', ''site-b''])"
  by (simp add: run_defs Let_def update_conv)

section \<open>Registering a daily job\<close>

text \<open>
  Claim C8 as stated fails: for the time string \<open>9am\<close>, which is not a well-formed
  "HH:MM" and which the library rejects, the caller gets the value \<open>False\<close>, not an
  exception.
\<close>

theorem malformed_time_returns_false_counterexample:
  "\<not> well_formed_hhmm ''9am''
   \<and> fst (schedule_daily_blog_generation well_formed_hhmm [''x'', ''y''] 800 False None ''9am''
           (new_scheduler [])) = Inr False
   \<and> \<not> isl (fst (schedule_daily_blog_generation well_formed_hhmm [''x'', ''y''] 800 False None
           ''9am'' (new_scheduler [])))"
  by (simp add: schedule_daily_blog_generation_def every_day_at_def well_formed_hhmm_def)

text \<open>
  Claim C8, amended. For every time string the scheduling library rejects, registering
  a daily job returns \<open>False\<close> to the caller (no exception is raised to it) and leaves
  the scheduler, with its registered jobs, as it was.
\<close>

theorem rejected_time_not_scheduled:
  assumes "\<not> at_accepts time_str"
  shows "schedule_daily_blog_generation at_accepts topics max_words pi pl time_str s = (Inr False, s)"
  using assms by (simp add: schedule_daily_blog_generation_def every_day_at_def)

text \<open>
  The theorem at the time string \<open>25:61\<close>, for a library that takes the well-formed
  "HH:MM" strings.
\<close>

theorem rejected_time_not_scheduled_witness:
  "\<not> well_formed_hhmm ''25:61''
   \<and> schedule_daily_blog_generation well_formed_hhmm [''x'', ''y''] 800 False None ''25:61''
        (new_scheduler []) = (Inr False, new_scheduler [])
   \<and> jobs (snd (schedule_daily_blog_generation well_formed_hhmm [''x'', ''y''] 800 False None
        ''25:61'' (new_scheduler []))) = []"
proof -
  have h: "\<not> well_formed_hhmm ''25:61''"
    by (simp add: well_formed_hhmm_def digit_val_def)
  from rejected_time_not_scheduled
         [of well_formed_hhmm "''25:61''" "[''x'', ''y'']" 800 False None "new_scheduler []"] h
  show ?thesis by (simp add: new_scheduler_def)
qed

section \<open>The series\<close>












text \<open>
  The series of the examples: with no plan from the model, the first three titles of
  the simple plan.
\<close>

lemma plan_AI: "generate_series_plan mongo_env ''AI'' 3 =
    [''Introduction to AI'', ''Getting Started with AI'', ''Advanced AI Techniques'']"
  by (simp add: generate_series_plan_def generate_simple_series_plan_def slice_to_def mongo_env_def)

lemma strip_plan_AI:
  "strip ''Introduction to AI'' \<noteq> []" "strip ''Getting Started with AI'' \<noteq> []"
  "strip ''Advanced AI Techniques'' \<noteq> []"
  by (simp_all add: strip_def isspace_def)

lemma series_second_generation_fails:
  "generate_blog_series second_generation_fails ''AI'' 3 = Inl (ExternalError ''model unavailable'')"
  using plan_AI strip_plan_AI
  by (simp add: generate_blog_series_def generate_series_plan_def second_generation_fails_def
        generate_blog_def process_blog_content_def getitem_def Let_def mongo_env_def)




section \<open>The generation counters\<close>

lemma job_body_counters:
  "(total_generated (stats (snd (generate_and_publish_blog e topics max_words pi pl s))) =
      total_generated (stats s) + 1
    \<and> failed_generations (stats (snd (generate_and_publish_blog e topics max_words pi pl s))) =
      failed_generations (stats s))
   \<or> (total_generated (stats (snd (generate_and_publish_blog e topics max_words pi pl s))) =
      total_generated (stats s)
    \<and> failed_generations (stats (snd (generate_and_publish_blog e topics max_words pi pl s))) =
      failed_generations (stats s) + 1)"
  by (simp add: generate_and_publish_blog_def add_stats_def Let_def
           split: sum.splits prod.splits)

lemma series_post_counters:
  assumes "series_post e pi pl i d (reports, pc, s) = (reports', pc', s')"
  shows "total_generated (stats s') + failed_generations (stats s') =
           total_generated (stats s) + failed_generations (stats s) + 1
         \<and> total_generated (stats s) \<le> total_generated (stats s')
         \<and> failed_generations (stats s) \<le> failed_generations (stats s')"
  using assms
  by (auto simp add: series_post_def add_stats_def Let_def split: sum.splits prod.splits if_splits)

lemma series_loop_counters:
  assumes "series_loop e pi pl i posts (reports, pc, s) = (reports', pc', s')"
  shows "total_generated (stats s') + failed_generations (stats s') =
           total_generated (stats s) + failed_generations (stats s) + int (length posts)
         \<and> total_generated (stats s) \<le> total_generated (stats s')
         \<and> failed_generations (stats s) \<le> failed_generations (stats s')"
  using assms
proof (induction posts arbitrary: i reports pc s)
  case Nil
  then show ?case by simp
next
  case (Cons d posts)
  obtain r1 p1 s1 where step: "series_post e pi pl i d (reports, pc, s) = (r1, p1, s1)"
    by (cases "series_post e pi pl i d (reports, pc, s)") auto
  with Cons.prems have "series_loop e pi pl (Suc i) posts (r1, p1, s1) = (reports', pc', s')"
    by simp
  from Cons.IH [OF this] series_post_counters [OF step] show ?case
    by simp
qed

text \<open>A series whose generation raises leaves the scheduler as it was.\<close>

lemma series_raises_unchanged:
  assumes "generate_blog_series e mt n = Inl ex"
  shows "run_invocation s (Series e mt n pi pl) = s"
  using assms by (simp add: sched_generate_blog_series_def)

text \<open>A generated series adds one to one of the two counters for each of its posts.\<close>

lemma series_generated_counters:
  assumes "generate_blog_series e mt n = Inr posts"
  shows "total_generated (stats (run_invocation s (Series e mt n pi pl)))
           + failed_generations (stats (run_invocation s (Series e mt n pi pl))) =
           total_generated (stats s) + failed_generations (stats s) + int (length posts)
         \<and> total_generated (stats s) \<le> total_generated (stats (run_invocation s (Series e mt n pi pl)))
         \<and> failed_generations (stats s)
             \<le> failed_generations (stats (run_invocation s (Series e mt n pi pl)))"
proof -
  obtain r1 p1 s1 where loop: "series_loop e pi pl 1 posts ([], 0, s) = (r1, p1, s1)"
    by (cases "series_loop e pi pl 1 posts ([], 0, s)") auto
  from series_loop_counters [OF loop] assms loop show ?thesis
    by (simp add: sched_generate_blog_series_def)
qed

lemma invocation_monotone:
  "total_generated (stats s) \<le> total_generated (stats (run_invocation s iv))
   \<and> failed_generations (stats s) \<le> failed_generations (stats (run_invocation s iv))"
proof (cases iv)
  case (JobBody e topics max_words pi pl)
  with job_body_counters [of e topics max_words pi pl s] show ?thesis by auto
next
  case (Series e mt n pi pl)
  show ?thesis
  proof (cases "generate_blog_series e mt n")
    case (Inl ex)
    with Series series_raises_unchanged [of e mt n ex s pi pl] show ?thesis by simp
  next
    case (Inr posts)
    with Series series_generated_counters [of e mt n posts s pi pl] show ?thesis by simp
  qed
qed

text \<open>Over any sequence of operations neither counter decreases.\<close>

lemma run_all_monotone:
  "total_generated (stats s) \<le> total_generated (stats (run_all s ivs))
   \<and> failed_generations (stats s) \<le> failed_generations (stats (run_all s ivs))"
proof (induction ivs arbitrary: s)
  case Nil
  show ?case by (simp add: run_all_def)
next
  case (Cons iv ivs)
  from Cons.IH [of "run_invocation s iv"] invocation_monotone [of s iv] show ?case
    by (simp add: run_all_def)
qed

text \<open>Over job bodies alone the sum of the two counters grows by the number of runs.\<close>

lemma job_bodies_sum:
  "total_generated (stats (run_all s (filter is_job_body ivs)))
     + failed_generations (stats (run_all s (filter is_job_body ivs))) =
     total_generated (stats s) + failed_generations (stats s)
       + int (length (filter is_job_body ivs))"
proof (induction ivs arbitrary: s)
  case Nil
  show ?case by (simp add: run_all_def)
next
  case (Cons iv ivs)
  show ?case
  proof (cases iv)
    case (JobBody e topics max_words pi pl)
    from Cons.IH [of "run_invocation s iv"] job_body_counters [of e topics max_words pi pl s]
      JobBody
    show ?thesis by (auto simp add: run_all_def)
  next
    case (Series e mt n pi pl)
    with Cons.IH [of s] show ?thesis by (simp add: run_all_def)
  qed
qed

text \<open>
  Claim C7 as stated fails for the posts of a series. The series \<open>AI\<close> of three posts has
  the plan shown; its first generator call returns a post and its second one raises,
  so two posts reached the generation step; yet after the run the sum of
  \<open>total_generated\<close> and \<open>failed_generations\<close> is still 0: neither post was counted.
\<close>

theorem failed_series_moves_no_counter_counterexample:
  "generate_series_plan second_generation_fails ''AI'' 3 =
     [''Introduction to AI'', ''Getting Started with AI'', ''Advanced AI Techniques'']
   \<and> \<not> isl (generate_blog second_generation_fails 0 ''Introduction to AI''
              (series_max_words (cfg second_generation_fails)))
   \<and> isl (generate_blog second_generation_fails 1 ''Getting Started with AI''
              (series_max_words (cfg second_generation_fails)))
   \<and> total_generated (stats (new_scheduler [])) + failed_generations (stats (new_scheduler [])) = 0
   \<and> total_generated (stats (run_all (new_scheduler [])
         [Series second_generation_fails ''AI'' 3 False None]))
       + failed_generations (stats (run_all (new_scheduler [])
         [Series second_generation_fails ''AI'' 3 False None])) = 0"
proof -
  have plan: "generate_series_plan second_generation_fails ''AI'' 3 =
     [''Introduction to AI'', ''Getting Started with AI'', ''Advanced AI Techniques'']"
    using plan_AI by (simp add: generate_series_plan_def second_generation_fails_def mongo_env_def)
  have first: "\<not> isl (generate_blog second_generation_fails 0 ''Introduction to AI''
              (series_max_words (cfg second_generation_fails)))"
    using strip_plan_AI
    by (simp add: generate_blog_def second_generation_fails_def mongo_env_def
          process_blog_content_def getitem_def Let_def)
  have second: "isl (generate_blog second_generation_fails 1 ''Getting Started with AI''
              (series_max_words (cfg second_generation_fails)))"
    using strip_plan_AI
    by (simp add: generate_blog_def second_generation_fails_def mongo_env_def)
  have before: "total_generated (stats (new_scheduler []))
      + failed_generations (stats (new_scheduler [])) = 0"
    by (simp add: new_scheduler_def)
  have "run_all (new_scheduler []) [Series second_generation_fails ''AI'' 3 False None] =
      new_scheduler []"
    using series_second_generation_fails
    by (simp add: run_all_def sched_generate_blog_series_def)
  with plan first second before show ?thesis by simp
qed

text \<open>
  Claim C7, amended. Over any sequence of job bodies and series, neither
  \<open>total_generated\<close> nor \<open>failed_generations\<close> decreases. Over any sequence of runs of the
  job body their sum grows by the number of runs, and one run adds one to exactly one
  of the two counters and leaves the other as it was. In a series the posts are
  counted in the loop that follows the generation: when the series is generated, the
  sum grows by the number of its posts; when a generator call of the series raises,
  the run leaves the scheduler, and with it both counters, as it was, whatever was
  generated before the failure.
\<close>

theorem generation_counters_by_operation:
  "total_generated (stats s) \<le> total_generated (stats (run_all s ivs))
   \<and> failed_generations (stats s) \<le> failed_generations (stats (run_all s ivs))
   \<and> total_generated (stats (run_all s (filter is_job_body ivs)))
       + failed_generations (stats (run_all s (filter is_job_body ivs))) =
       total_generated (stats s) + failed_generations (stats s)
         + int (length (filter is_job_body ivs))
   \<and> ((total_generated (stats (snd (generate_and_publish_blog e topics max_words pi pl s))) =
          total_generated (stats s) + 1
        \<and> failed_generations (stats (snd (generate_and_publish_blog e topics max_words pi pl s))) =
          failed_generations (stats s))
       \<or> (total_generated (stats (snd (generate_and_publish_blog e topics max_words pi pl s))) =
          total_generated (stats s)
        \<and> failed_generations (stats (snd (generate_and_publish_blog e topics max_words pi pl s))) =
          failed_generations (stats s) + 1))
   \<and> (generate_blog_series e main_topic num_posts = Inr blog_series \<longrightarrow>
        total_generated (stats (run_invocation s (Series e main_topic num_posts pi pl)))
          + failed_generations (stats (run_invocation s (Series e main_topic num_posts pi pl))) =
          total_generated (stats s) + failed_generations (stats s) + int (length blog_series))
   \<and> (generate_blog_series e main_topic num_posts = Inl ex \<longrightarrow>
        run_invocation s (Series e main_topic num_posts pi pl) = s)"
  using run_all_monotone [of s ivs] job_bodies_sum [of s ivs]
    job_body_counters [of e topics max_words pi pl s]
    series_generated_counters [of e main_topic num_posts blog_series s pi pl]
    series_raises_unchanged [of e main_topic num_posts ex s pi pl]
  by simp

lemma series_mongo_env: "\<exists>a b c. generate_blog_series mongo_env ''AI'' 3 = Inr [a, b, c]"
  using plan_AI strip_plan_AI
  by (simp add: generate_blog_series_def generate_blog_def process_blog_content_def getitem_def
        Let_def mongo_env_def)

text \<open>
  The amended claim at two runs of the series \<open>AI\<close> of three posts: one that is generated
  and counts three posts, one whose second generator call raises and counts none.
\<close>

theorem generation_counters_by_operation_witness:
  "total_generated (stats (run_invocation (new_scheduler []) (Series mongo_env ''AI'' 3 False None)))
     + failed_generations (stats (run_invocation (new_scheduler [])
         (Series mongo_env ''AI'' 3 False None))) = 3
   \<and> run_invocation (new_scheduler []) (Series second_generation_fails ''AI'' 3 False None) =
       new_scheduler []"
proof -
  obtain a b c where gen: "generate_blog_series mongo_env ''AI'' 3 = Inr [a, b, c]"
    using series_mongo_env by blast
  have zero: "total_generated (stats (new_scheduler [])) = 0"
    "failed_generations (stats (new_scheduler [])) = 0"
    by (simp_all add: new_scheduler_def)
  from generation_counters_by_operation
         [of "new_scheduler []" "[]" mongo_env "[]" 0 False None "''AI''" 3 "[a, b, c]"] gen
  have three: "total_generated (stats (run_invocation (new_scheduler [])
        (Series mongo_env ''AI'' 3 False None)))
      + failed_generations (stats (run_invocation (new_scheduler [])
        (Series mongo_env ''AI'' 3 False None))) = 3"
    unfolding zero by simp
  from generation_counters_by_operation
         [of "new_scheduler []" "[]" second_generation_fails "[]" 0 False None "''AI''" 3 _
             "ExternalError ''model unavailable''"]
       series_second_generation_fails
  have none: "run_invocation (new_scheduler []) (Series second_generation_fails ''AI'' 3 False None) =
      new_scheduler []"
    by blast
  from three none show ?thesis by simp
qed

end
